theory Spec2Isabelle
  imports Main
begin

section \<open>The red-teaming command line: data\<close>

text \<open>
  The script \<^verbatim>\<open>redteam.py\<close> writes one file, \<^verbatim>\<open>bot.json\<close>, and otherwise only
  starts shell commands of the external \<^verbatim>\<open>aiandme\<close> tool. The model records both kinds of
  effect, in order, in a trace. What the script prints on standard output is left out.
  The shell commands are opaque: all the model keeps of one is its return code, and it
  takes them to leave the files alone. Faults of the platform (a file that cannot be
  written, an interrupt) are not modelled.
\<close>

datatype event =
    Shell string          \<comment> \<open>\<^verbatim>\<open>subprocess.run(cmd, shell=True)\<close>\<close>
  | Write string string   \<comment> \<open>a file opened with mode \<^verbatim>\<open>"w"\<close> and filled: path, content\<close>

text \<open>
  What the script cannot decide itself is fixed by the platform it runs on: the directory of
  the script (hence the path of \<^verbatim>\<open>bot.json\<close>), the environment as it is once
  \<^verbatim>\<open>load_dotenv\<close> has merged the \<^verbatim>\<open>.env\<close> file into it, the text that
  \<^verbatim>\<open>json.dump(_, indent=2)\<close> produces for a value, and the return code of every shell
  command. The return code may depend on everything that happened before, so the same
  command can fail once and succeed later.
\<close>

datatype json = JBool bool | JStr string | JObj "(string \<times> json) list"

record platform =
  BOT_CONFIG_FILE :: string
  environ :: "string \<rightharpoonup> string"
  json_dump :: "json \<Rightarrow> string"
  returncode :: "event list \<Rightarrow> string \<Rightarrow> int"

record state =
  files :: "string \<rightharpoonup> string"
  trace :: "event list"

text \<open>
  \<^verbatim>\<open>sys.exit(arg)\<close> raises \<^verbatim>\<open>SystemExit\<close>, and nothing in the script catches it. With a
  string the interpreter prints it on standard error and the process ends with status 1;
  with an integer that is the status. \<^verbatim>\<open>argparse\<close> leaves through \<^verbatim>\<open>sys.exit(2)\<close> when
  it rejects the command line and through \<^verbatim>\<open>sys.exit(0)\<close> after printing the help. A
  missing dictionary key is an uncaught \<^verbatim>\<open>KeyError\<close>, status 1. A command that returns
  lets the process end with status 0.
\<close>

datatype exit_arg = Code int | Message string

datatype error = SystemExit exit_arg | KeyError string

fun exit_status :: "error + unit \<Rightarrow> int" where
  "exit_status (Inr _) = 0"
| "exit_status (Inl (SystemExit (Code n))) = n"
| "exit_status (Inl (SystemExit (Message _))) = 1"
| "exit_status (Inl (KeyError _)) = 1"

text \<open>
  The attributes of an \<^verbatim>\<open>argparse.Namespace\<close> hold \<^verbatim>\<open>None\<close>, a boolean or a string.
  \<^verbatim>\<open>getattr(args, name, default)\<close> also answers for an object without the attribute
  (\<^verbatim>\<open>cmd_setup(None)\<close> passes \<^verbatim>\<open>None\<close>), which the empty namespace stands for.
\<close>

datatype pyval = PNone | PBool bool | PStr string

type_synonym namespace = "string \<rightharpoonup> pyval"

definition getattr :: "namespace \<Rightarrow> string \<Rightarrow> pyval \<Rightarrow> pyval" where
  "getattr args name d = (case args name of None \<Rightarrow> d | Some v \<Rightarrow> v)"

fun truthy :: "pyval \<Rightarrow> bool" where
  "truthy PNone = False"
| "truthy (PBool b) = b"
| "truthy (PStr s) = (s \<noteq> [])"

fun py_str :: "pyval \<Rightarrow> string" where
  "py_str PNone = ''None''"
| "py_str (PBool True) = ''True''"
| "py_str (PBool False) = ''False''"
| "py_str (PStr s) = s"

subsection \<open>Constants\<close>

datatype category_key = single | multi | agentic | behavioral

fun TEST_CATEGORIES :: "category_key \<Rightarrow> string" where
  "TEST_CATEGORIES single = ''aiandme/adversarial/owasp_single_turn''"
| "TEST_CATEGORIES multi = ''aiandme/adversarial/owasp_multi_turn''"
| "TEST_CATEGORIES agentic = ''aiandme/adversarial/owasp_agentic_multi_turn''"
| "TEST_CATEGORIES behavioral = ''aiandme/behavioral/behavioral''"

definition TEST_LEVELS :: "string list" where
  "TEST_LEVELS = [''unit'', ''system'', ''acceptance'']"

section \<open>Helpers\<close>

definition missing :: "string option \<Rightarrow> bool" where
  \<comment> \<open>\<^verbatim>\<open>not v\<close> for the result of \<^verbatim>\<open>os.environ.get\<close>: \<^verbatim>\<open>None\<close> or the empty string\<close>
  "missing v = (case v of None \<Rightarrow> True | Some s \<Rightarrow> s = [])"

definition load_config :: "platform \<Rightarrow> error + (string \<times> string)" where
  "load_config p =
     (let url = environ p ''FOODIE_API_URL'';
          key = environ p ''FOODIE_API_KEY''
      in if missing url \<or> missing key
         then Inl (SystemExit (Message (''Error: FOODIE_API_URL and FOODIE_API_KEY must be set.''
                @ [CHR 0x0A] @ ''Copy .env.example to .env and fill in your values.'')))
         else Inr (the url, the key))"

definition run :: "platform \<Rightarrow> string \<Rightarrow> bool \<Rightarrow> state \<Rightarrow> bool \<times> state" where
  "run p cmd check s =
     (let rc = returncode p (trace s) cmd;
          s' = s\<lparr>trace := trace s @ [Shell cmd]\<rparr>
      in if check \<and> rc \<noteq> 0 then (False, s') else (True, s'))"

definition ensure_logged_in :: "platform \<Rightarrow> state \<Rightarrow> state" where
  "ensure_logged_in p s =
     (let rc = returncode p (trace s) ''aiandme whoami'';
          s' = s\<lparr>trace := trace s @ [Shell ''aiandme whoami'']\<rparr>
      in if rc \<noteq> 0 then snd (run p ''aiandme login'' True s') else s')"

section \<open>Commands\<close>

definition bot_config :: "string \<Rightarrow> string \<Rightarrow> json" where
  "bot_config url key = JObj
     [(''streaming'', JBool False),
      (''thread_auth'', JObj
         [(''endpoint'', JStr ''''),
          (''headers'', JObj []),
          (''payload'', JObj [])]),
      (''thread_init'', JObj
         [(''endpoint'', JStr url),
          (''headers'', JObj
             [(''Content-Type'', JStr ''application/json''),
              (''x-api-key'', JStr key)]),
          (''payload'', JObj [(''input'', JStr ''clear'')])]),
      (''chat_completion'', JObj
         [(''endpoint'', JStr url),
          (''headers'', JObj
             [(''Content-Type'', JStr ''application/json''),
              (''x-api-key'', JStr key)]),
          (''payload'', JObj [(''input'', JStr ''$PROMPT'')])])]"

definition cmd_setup :: "platform \<Rightarrow> namespace \<Rightarrow> state \<Rightarrow> (error + unit) \<times> state" where
  "cmd_setup p args s =
     (case load_config p of
        Inl e \<Rightarrow> (Inl e, s)
      | Inr (url, key) \<Rightarrow>
          (let content = json_dump p (bot_config url key)
           in (Inr (), s\<lparr>files := (files s)(BOT_CONFIG_FILE p \<mapsto> content),
                          trace := trace s @ [Write (BOT_CONFIG_FILE p) content]\<rparr>)))"

definition ensure_bot_json :: "platform \<Rightarrow> state \<Rightarrow> (error + unit) \<times> state" where
  "ensure_bot_json p s =
     (if files s (BOT_CONFIG_FILE p) = None then cmd_setup p Map.empty s else (Inr (), s))"

definition cmd_init :: "platform \<Rightarrow> namespace \<Rightarrow> state \<Rightarrow> (error + unit) \<times> state" where
  "cmd_init p args s =
     (let s1 = ensure_logged_in p s
      in case ensure_bot_json p s1 of
           (Inl e, s2) \<Rightarrow> (Inl e, s2)
         | (Inr _, s2) \<Rightarrow>
             (Inr (), snd (run p (''aiandme init -e '' @ BOT_CONFIG_FILE p) True s2)))"

definition cmd_test :: "platform \<Rightarrow> namespace \<Rightarrow> state \<Rightarrow> (error + unit) \<times> state" where
  "cmd_test p args s =
     (let s1 = ensure_logged_in p s
      in case ensure_bot_json p s1 of
           (Inl e, s2) \<Rightarrow> (Inl e, s2)
         | (Inr _, s2) \<Rightarrow>
             (let category =
                    (if truthy (getattr args ''single'' (PBool False))
                       then TEST_CATEGORIES single
                     else if truthy (getattr args ''agentic'' (PBool False))
                       then TEST_CATEGORIES agentic
                     else if truthy (getattr args ''behavioral'' (PBool False))
                       then TEST_CATEGORIES behavioral
                     else if truthy (getattr args ''adaptive'' (PBool False))
                       then TEST_CATEGORIES multi
                     else TEST_CATEGORIES multi);
                  level = getattr args ''level'' (PStr ''unit'')
              in if level \<notin> PStr ` set TEST_LEVELS
                 then (Inl (SystemExit (Message
                         (''Error: level must be one of ''
                          @ ''('' @ [CHR 0x27] @ ''unit'' @ [CHR 0x27] @ '', ''
                          @ [CHR 0x27] @ ''system'' @ [CHR 0x27] @ '', ''
                          @ [CHR 0x27] @ ''acceptance'' @ [CHR 0x27] @ '')''))), s2)
                 else
                   (let cmd = ''aiandme test''
                            @ '' -e '' @ BOT_CONFIG_FILE p
                            @ '' -t '' @ category
                            @ '' -l '' @ py_str level
                            @ '' --wait'';
                        cmd = (if truthy (getattr args ''adaptive'' (PBool False))
                               then cmd @ '' --adaptive'' else cmd);
                        cmd = (if truthy (getattr args ''fail_on'' PNone)
                               then cmd @ '' --fail-on='' @ py_str (getattr args ''fail_on'' PNone)
                               else cmd)
                    in (Inr (), snd (run p cmd True s2)))))"

definition cmd_status :: "platform \<Rightarrow> namespace \<Rightarrow> state \<Rightarrow> (error + unit) \<times> state" where
  "cmd_status p args s =
     (let s1 = ensure_logged_in p s;
          cmd = ''aiandme status'';
          cmd = (if truthy (getattr args ''watch'' (PBool False)) then cmd @ '' --watch'' else cmd)
      in (Inr (), snd (run p cmd True s1)))"

definition cmd_logs :: "platform \<Rightarrow> namespace \<Rightarrow> state \<Rightarrow> (error + unit) \<times> state" where
  "cmd_logs p args s =
     (let s1 = ensure_logged_in p s;
          cmd = ''aiandme logs'';
          cmd = (if truthy (getattr args ''failed'' (PBool False))
                 then cmd @ '' --verdict fail'' else cmd)
      in (Inr (), snd (run p cmd True s1)))"

definition cmd_posture :: "platform \<Rightarrow> namespace \<Rightarrow> state \<Rightarrow> (error + unit) \<times> state" where
  "cmd_posture p args s =
     (let s1 = ensure_logged_in p s
      in (Inr (), snd (run p ''aiandme posture'' True s1)))"

definition cmd_guardrails :: "platform \<Rightarrow> namespace \<Rightarrow> state \<Rightarrow> (error + unit) \<times> state" where
  "cmd_guardrails p args s =
     (let s1 = ensure_logged_in p s;
          vendor = getattr args ''vendor'' (PStr ''aiandme'');
          fmt = getattr args ''format'' (PStr ''json'');
          cmd = ''aiandme guardrails --vendor '' @ py_str vendor @ '' --format '' @ py_str fmt;
          cmd = (if truthy (getattr args ''output'' PNone)
                 then cmd @ '' -o '' @ py_str (getattr args ''output'' PNone) else cmd)
      in (Inr (), snd (run p cmd True s1)))"

definition cmd_full :: "platform \<Rightarrow> namespace \<Rightarrow> state \<Rightarrow> (error + unit) \<times> state" where
  "cmd_full p args s =
     (case cmd_setup p Map.empty s of
        (Inl e, s1) \<Rightarrow> (Inl e, s1)
      | (Inr _, s1) \<Rightarrow>
          (let s2 = ensure_logged_in p s1;
               s3 = snd (run p (''aiandme init -e '' @ BOT_CONFIG_FILE p) True s2);
               s4 = snd (run p (''aiandme test -e '' @ BOT_CONFIG_FILE p
                                @ '' -t '' @ TEST_CATEGORIES single
                                @ '' -l unit --wait'') False s3);
               s5 = snd (run p (''aiandme test -e '' @ BOT_CONFIG_FILE p
                                @ '' -t '' @ TEST_CATEGORIES multi
                                @ '' -l unit --wait'') False s4);
               s6 = snd (run p ''aiandme posture'' False s5);
               s7 = snd (run p ''aiandme logs --verdict fail'' False s6)
           in (Inr (), s7)))"

section \<open>The command-line parser and \<open>main\<close>\<close>

text \<open>
  Each \<^verbatim>\<open>add_argument\<close> call of \<^verbatim>\<open>main\<close> is one \<open>Argument\<close>: its option strings, the
  attribute it sets, its action, its \<^verbatim>\<open>choices\<close> (if any), its default, and whether it
  belongs to the mutually exclusive group of the \<^verbatim>\<open>test\<close> parser.
\<close>

datatype action = store_true | store | print_help

datatype argument =
  Argument (flags: "string list") (dest: string) (action: action)
           (choices: "string list option") (dflt: pyval) (exclusive: bool)

definition subparsers :: "(string \<times> argument list) list" where
  "subparsers =
     [(''setup'', []),
      (''init'', []),
      (''test'',
         [Argument [''--single''] ''single'' store_true None (PBool False) True,
          Argument [''--agentic''] ''agentic'' store_true None (PBool False) True,
          Argument [''--behavioral''] ''behavioral'' store_true None (PBool False) True,
          Argument [''--adaptive''] ''adaptive'' store_true None (PBool False) True,
          Argument [''--level''] ''level'' store (Some TEST_LEVELS) (PStr ''unit'') False,
          Argument [''--fail-on''] ''fail_on'' store
            (Some [''critical'', ''high'', ''medium'', ''low'', ''any'']) PNone False]),
      (''status'', [Argument [''--watch''] ''watch'' store_true None (PBool False) False]),
      (''logs'', [Argument [''--failed''] ''failed'' store_true None (PBool False) False]),
      (''posture'', []),
      (''guardrails'',
         [Argument [''--vendor''] ''vendor'' store
            (Some [''aiandme'', ''openai'', ''azure'', ''bedrock'']) (PStr ''aiandme'') False,
          Argument [''--format''] ''format'' store (Some [''json'', ''yaml'']) (PStr ''json'') False,
          Argument [''-o'', ''--output''] ''output'' store None PNone False]),
      (''full'', [])]"

text \<open>
  \<^verbatim>\<open>argparse\<close> gives every parser the option \<^verbatim>\<open>-h\<close>/\<^verbatim>\<open>--help\<close>; it stores nothing (the
  default written here is never used).
\<close>

definition help_argument :: argument where
  "help_argument = Argument [''-h'', ''--help''] ''help'' print_help None PNone False"

text \<open>
  The command line is taken as \<^verbatim>\<open>argparse\<close> has read it: the subcommand word, if there is
  one, and the strings after it (all the strings of the line, if there is none), each
  already matched against the options of the parser in charge. \<open>Opt d v\<close> is an
  occurrence of the option that sets the attribute \<open>d\<close>, in whatever spelling \<^verbatim>\<open>argparse\<close>
  accepts for it, abbreviated or not, with the value written with it, if any. \<open>Other x\<close>
  is a string that \<^verbatim>\<open>argparse\<close> matches with no option. A line on which an abbreviation fits
  several options has no such reading (\<^verbatim>\<open>argparse\<close> rejects it before it acts on any
  option), and options written before the subcommand word are not represented.
\<close>

datatype occurrence = Opt string "string option" | Other string

record argv =
  subcommand :: "string option"
  options :: "occurrence list"

fun find_argument :: "argument list \<Rightarrow> string \<Rightarrow> argument option" where
  "find_argument [] d = None"
| "find_argument (a # as) d =
     (if dest a = d then Some a else find_argument as d)"

text \<open>
  Options are handled from left to right. \<open>seen\<close> holds the attributes of the mutually
  exclusive flags met so far: a second, different one is an error; the same one again is
  not. A string that matches no option is set aside and the line is rejected for it only
  once all of it has been read, so an error or a help option further right still comes
  first. An \<open>Opt\<close> that names an attribute of no option of the parser stands for no
  string of a real line; it is treated like \<open>Other\<close>.
\<close>

fun parse_options ::
  "argument list \<Rightarrow> occurrence list \<Rightarrow> string list \<Rightarrow> namespace
     \<Rightarrow> error + namespace" where
  "parse_options specs [] seen ns = Inr ns"
| "parse_options specs (Other x # rest) seen ns =
     (case parse_options specs rest seen ns of
        Inl e \<Rightarrow> Inl e
      | Inr _ \<Rightarrow> Inl (SystemExit (Code 2)))"
| "parse_options specs (Opt d v # rest) seen ns =
     (case find_argument (help_argument # specs) d of
        None \<Rightarrow>
          (case parse_options specs rest seen ns of
             Inl e \<Rightarrow> Inl e
           | Inr _ \<Rightarrow> Inl (SystemExit (Code 2)))
      | Some a \<Rightarrow>
          (case action a of
             print_help \<Rightarrow>
               (if v \<noteq> None then Inl (SystemExit (Code 2)) else Inl (SystemExit (Code 0)))
           | store_true \<Rightarrow>
               (if v \<noteq> None then Inl (SystemExit (Code 2))
                else if exclusive a \<and> list_ex (\<lambda>d'. d' \<noteq> dest a) seen
                  then Inl (SystemExit (Code 2))
                else parse_options specs rest
                       (if exclusive a then dest a # seen else seen)
                       (ns(dest a \<mapsto> PBool True)))
           | store \<Rightarrow>
               (case v of
                  None \<Rightarrow> Inl (SystemExit (Code 2))
                | Some x \<Rightarrow>
                    (if (case choices a of None \<Rightarrow> False | Some cs \<Rightarrow> x \<notin> set cs)
                     then Inl (SystemExit (Code 2))
                     else parse_options specs rest seen (ns(dest a \<mapsto> PStr x))))))"

definition defaults :: "string \<Rightarrow> argument list \<Rightarrow> namespace" where
  "defaults name specs =
     fold (\<lambda>a ns. ns(dest a \<mapsto> dflt a)) specs [''command'' \<mapsto> PStr name]"

definition parse_args :: "argv \<Rightarrow> error + namespace" where
  "parse_args av =
     (case subcommand av of
        None \<Rightarrow>
          (case parse_options [] (options av) [] Map.empty of
             Inl e \<Rightarrow> Inl e
           | Inr _ \<Rightarrow> Inl (SystemExit (Code 2)))
      | Some name \<Rightarrow>
          (case map_of subparsers name of
             None \<Rightarrow> Inl (SystemExit (Code 2))
           | Some specs \<Rightarrow> parse_options specs (options av) [] (defaults name specs)))"

definition commands ::
  "string \<rightharpoonup> (platform \<Rightarrow> namespace \<Rightarrow> state \<Rightarrow> (error + unit) \<times> state)" where
  "commands = map_of
     [(''setup'', cmd_setup),
      (''init'', cmd_init),
      (''test'', cmd_test),
      (''status'', cmd_status),
      (''logs'', cmd_logs),
      (''posture'', cmd_posture),
      (''guardrails'', cmd_guardrails),
      (''full'', cmd_full)]"

definition main :: "platform \<Rightarrow> argv \<Rightarrow> state \<Rightarrow> (error + unit) \<times> state" where
  "main p av s =
     (case parse_args av of
        Inl e \<Rightarrow> (Inl e, s)
      | Inr args \<Rightarrow>
          (let name = py_str (getattr args ''command'' PNone)
           in case commands name of
                None \<Rightarrow> (Inl (KeyError name), s)
              | Some f \<Rightarrow> f p args s))"

section \<open>Reading a descriptor\<close>

text \<open>Member access into a JSON object, and along a path of member names.\<close>

fun jget :: "json \<Rightarrow> string \<Rightarrow> json option" where
  "jget (JObj kvs) k = map_of kvs k"
| "jget (JBool _) k = None"
| "jget (JStr _) k = None"

fun jpath :: "json \<Rightarrow> string list \<Rightarrow> json option" where
  "jpath j [] = Some j"
| "jpath j (k # ks) = (case jget j k of None \<Rightarrow> None | Some v \<Rightarrow> jpath v ks)"

section \<open>Example inputs\<close>

text \<open>
  A compact JSON text, adequate for strings that need no escaping; it stands in for
  \<^verbatim>\<open>json.dump\<close> in the examples only.
\<close>

fun join :: "string \<Rightarrow> string list \<Rightarrow> string" where
  "join sep [] = []"
| "join sep [x] = x"
| "join sep (x # y # ys) = x @ sep @ join sep (y # ys)"

fun render :: "json \<Rightarrow> string" where
  "render (JBool b) = (if b then ''true'' else ''false'')"
| "render (JStr s) = [CHR 0x22] @ s @ [CHR 0x22]"
| "render (JObj kvs) =
     ''{'' @ join '','' (map (\<lambda>(k, v). [CHR 0x22] @ k @ [CHR 0x22] @ '':'' @ render v) kvs) @ ''}''"

text \<open>
  A platform with both credentials set, on which \<^verbatim>\<open>aiandme whoami\<close> succeeds and every
  other shell command exits with status 1.
\<close>

definition example_platform :: platform where
  "example_platform =
     \<lparr>BOT_CONFIG_FILE = ''/opt/redteam/bot.json'',
      environ = [''FOODIE_API_URL'' \<mapsto> ''https://foodie.example/chat'',
                 ''FOODIE_API_KEY'' \<mapsto> ''sk-0123456789abcdef''],
      json_dump = render,
      returncode = (\<lambda>h c. if c = ''aiandme whoami'' then 0 else 1)\<rparr>"

definition fresh :: state where
  "fresh = \<lparr>files = Map.empty, trace = []\<rparr>"

definition configured :: state where
  "configured = \<lparr>files = [''/opt/redteam/bot.json'' \<mapsto> ''{}''], trace = []\<rparr>"

section \<open>Basic facts\<close>

lemma run_state: "snd (run p cmd check s) = s\<lparr>trace := trace s @ [Shell cmd]\<rparr>"
  by (simp add: run_def Let_def)

lemma ensure_logged_in_state:
  "ensure_logged_in p s =
     s\<lparr>trace := trace s @ Shell ''aiandme whoami''
            # (if returncode p (trace s) ''aiandme whoami'' \<noteq> 0
               then [Shell ''aiandme login''] else [])\<rparr>"
  by (simp add: ensure_logged_in_def run_state Let_def)

lemma load_config_present:
  assumes "environ p ''FOODIE_API_URL'' = Some url" and "url \<noteq> []"
      and "environ p ''FOODIE_API_KEY'' = Some key" and "key \<noteq> []"
  shows "load_config p = Inr (url, key)"
  using assms by (simp add: load_config_def missing_def)

lemma load_config_absent:
  assumes "environ p ''FOODIE_API_URL'' = None \<or> environ p ''FOODIE_API_URL'' = Some []
         \<or> environ p ''FOODIE_API_KEY'' = None \<or> environ p ''FOODIE_API_KEY'' = Some []"
  shows "\<exists>m. load_config p = Inl (SystemExit (Message m))"
  using assms by (auto simp add: load_config_def missing_def)

lemma load_config_cases:
  "(\<exists>m. load_config p = Inl (SystemExit (Message m)))
     \<or> (\<exists>url key. load_config p = Inr (url, key))"
  by (simp add: load_config_def Let_def)

lemma cmd_setup_ok:
  assumes "load_config p = Inr (url, key)"
  shows "cmd_setup p args s =
     (Inr (), s\<lparr>files := (files s)(BOT_CONFIG_FILE p \<mapsto> json_dump p (bot_config url key)),
               trace := trace s @ [Write (BOT_CONFIG_FILE p) (json_dump p (bot_config url key))]\<rparr>)"
  using assms by (simp add: cmd_setup_def Let_def)

lemma cmd_setup_fail:
  assumes "load_config p = Inl e"
  shows "cmd_setup p args s = (Inl e, s)"
  using assms by (simp add: cmd_setup_def)

lemma cmd_setup_trace:
  "\<exists>evs. trace (snd (cmd_setup p args s)) = trace s @ evs \<and> (\<forall>c. Shell c \<notin> set evs)"
  using load_config_cases [of p] by (auto simp add: cmd_setup_def Let_def)

lemma ensure_bot_json_present:
  "files s (BOT_CONFIG_FILE p) = Some c \<Longrightarrow> ensure_bot_json p s = (Inr (), s)"
  by (simp add: ensure_bot_json_def)

lemma ensure_bot_json_trace:
  "\<exists>evs. trace (snd (ensure_bot_json p s)) = trace s @ evs \<and> (\<forall>c. Shell c \<notin> set evs)"
  using cmd_setup_trace [of p Map.empty s] by (simp add: ensure_bot_json_def)

lemma cmd_full_ok:
  assumes "load_config p = Inr (url, key)"
  shows "cmd_full p args s =
     (Inr (),
      s\<lparr>files := (files s)(BOT_CONFIG_FILE p \<mapsto> json_dump p (bot_config url key)),
        trace := trace s
          @ [Write (BOT_CONFIG_FILE p) (json_dump p (bot_config url key)),
             Shell ''aiandme whoami'']
          @ (if returncode p
                  (trace s @ [Write (BOT_CONFIG_FILE p) (json_dump p (bot_config url key))])
                  ''aiandme whoami'' \<noteq> 0
             then [Shell ''aiandme login''] else [])
          @ [Shell (''aiandme init -e '' @ BOT_CONFIG_FILE p),
             Shell (''aiandme test -e '' @ BOT_CONFIG_FILE p
                    @ '' -t aiandme/adversarial/owasp_single_turn -l unit --wait''),
             Shell (''aiandme test -e '' @ BOT_CONFIG_FILE p
                    @ '' -t aiandme/adversarial/owasp_multi_turn -l unit --wait''),
             Shell ''aiandme posture'',
             Shell ''aiandme logs --verdict fail'']\<rparr>)"
  by (simp add: cmd_full_def cmd_setup_ok [OF assms] ensure_logged_in_state run_state)

lemma parse_args_plain:
  assumes "name \<in> {''setup'', ''init'', ''posture'', ''full''}"
  shows "parse_args \<lparr>subcommand = Some name, options = []\<rparr> = Inr [''command'' \<mapsto> PStr name]"
  using assms by (auto simp add: parse_args_def subparsers_def defaults_def)

lemma main_full:
  "main p \<lparr>subcommand = Some ''full'', options = []\<rparr> s
     = cmd_full p [''command'' \<mapsto> PStr ''full''] s"
  by (simp add: main_def parse_args_plain getattr_def commands_def)

lemma main_setup:
  "main p \<lparr>subcommand = Some ''setup'', options = []\<rparr> s
     = cmd_setup p [''command'' \<mapsto> PStr ''setup''] s"
  by (simp add: main_def parse_args_plain getattr_def commands_def)

lemma example_platform_fields:
  "BOT_CONFIG_FILE example_platform = ''/opt/redteam/bot.json''"
  "json_dump example_platform = render"
  "returncode example_platform h c = (if c = ''aiandme whoami'' then 0 else 1)"
  "environ example_platform ''FOODIE_API_URL'' = Some ''https://foodie.example/chat''"
  "environ example_platform ''FOODIE_API_KEY'' = Some ''sk-0123456789abcdef''"
  by (simp_all add: example_platform_def)

lemma example_credentials:
  "load_config example_platform = Inr (''https://foodie.example/chat'', ''sk-0123456789abcdef'')"
  by (simp add: load_config_def example_platform_def missing_def)

section \<open>The full workflow\<close>

text \<open>
  C1. Whenever the credentials load, \<open>cmd_full\<close> (which is what a process started as
  \<^verbatim>\<open>redteam.py full\<close> runs) returns, and what it did is exactly this, in
  this order: it wrote the descriptor (step 1), asked \<^verbatim>\<open>aiandme whoami\<close> and, only if that
  failed, started \<^verbatim>\<open>aiandme login\<close> (step 2), ran \<^verbatim>\<open>aiandme init\<close> on the descriptor (step 3),
  the single-turn test at level unit (step 4), the multi-turn test at level unit (step 5),
  then \<^verbatim>\<open>aiandme posture\<close> and \<^verbatim>\<open>aiandme logs --verdict fail\<close> (step 6). The return codes
  are arbitrary, so no exit status of step 3 or step 4 (or of any other step) removes,
  repeats or reorders a later step.
\<close>

theorem full_runs_six_steps_in_order:
  assumes "load_config p = Inr (url, key)"
  shows "cmd_full p args s =
     (Inr (),
      s\<lparr>files := (files s)(BOT_CONFIG_FILE p \<mapsto> json_dump p (bot_config url key)),
        trace := trace s
          @ [Write (BOT_CONFIG_FILE p) (json_dump p (bot_config url key)),
             Shell ''aiandme whoami'']
          @ (if returncode p
                  (trace s @ [Write (BOT_CONFIG_FILE p) (json_dump p (bot_config url key))])
                  ''aiandme whoami'' \<noteq> 0
             then [Shell ''aiandme login''] else [])
          @ [Shell (''aiandme init -e '' @ BOT_CONFIG_FILE p),
             Shell (''aiandme test -e '' @ BOT_CONFIG_FILE p
                    @ '' -t aiandme/adversarial/owasp_single_turn -l unit --wait''),
             Shell (''aiandme test -e '' @ BOT_CONFIG_FILE p
                    @ '' -t aiandme/adversarial/owasp_multi_turn -l unit --wait''),
             Shell ''aiandme posture'',
             Shell ''aiandme logs --verdict fail'']\<rparr>)
     \<and> main p \<lparr>subcommand = Some ''full'', options = []\<rparr> s
         = cmd_full p [''command'' \<mapsto> PStr ''full''] s"
  using cmd_full_ok [OF assms] main_full by simp

text \<open>On the example platform the init step and both test steps exit with status 1.\<close>

theorem full_runs_six_steps_in_order_witness:
  "load_config example_platform = Inr (''https://foodie.example/chat'', ''sk-0123456789abcdef'')
   \<and> returncode example_platform [] ''aiandme init -e /opt/redteam/bot.json'' = 1
   \<and> trace (snd (cmd_full example_platform Map.empty fresh)) =
       [Write ''/opt/redteam/bot.json''
          (render (bot_config ''https://foodie.example/chat'' ''sk-0123456789abcdef'')),
        Shell ''aiandme whoami'',
        Shell ''aiandme init -e /opt/redteam/bot.json'',
        Shell ''aiandme test -e /opt/redteam/bot.json -t aiandme/adversarial/owasp_single_turn -l unit --wait'',
        Shell ''aiandme test -e /opt/redteam/bot.json -t aiandme/adversarial/owasp_multi_turn -l unit --wait'',
        Shell ''aiandme posture'',
        Shell ''aiandme logs --verdict fail'']"
  using full_runs_six_steps_in_order [OF example_credentials, of Map.empty fresh]
  by (simp add: example_credentials example_platform_fields fresh_def)

text \<open>
  C4. With the credentials present, \<open>cmd_full\<close> returns instead of raising, whatever the
  shell commands return, so a process started as \<^verbatim>\<open>redteam.py full\<close> ends with status 0.
\<close>

theorem full_exits_zero:
  assumes "environ p ''FOODIE_API_URL'' = Some url" and "url \<noteq> []"
      and "environ p ''FOODIE_API_KEY'' = Some key" and "key \<noteq> []"
  shows "fst (cmd_full p args s) = Inr ()
       \<and> exit_status (fst (main p \<lparr>subcommand = Some ''full'', options = []\<rparr> s)) = 0"
  by (simp add: main_full cmd_full_ok [OF load_config_present [OF assms]])

theorem full_exits_zero_witness:
  "(\<forall>h c. returncode (example_platform\<lparr>returncode := \<lambda>h c. 3\<rparr>) h c = 3)
   \<and> fst (cmd_full (example_platform\<lparr>returncode := \<lambda>h c. 3\<rparr>) Map.empty fresh) = Inr ()
   \<and> exit_status (fst (main (example_platform\<lparr>returncode := \<lambda>h c. 3\<rparr>)
                          \<lparr>subcommand = Some ''full'', options = []\<rparr> fresh)) = 0"
  using full_exits_zero [of "example_platform\<lparr>returncode := \<lambda>h c. 3\<rparr>"
          "''https://foodie.example/chat''" "''sk-0123456789abcdef''" Map.empty fresh]
  by (simp add: example_platform_fields)

section \<open>Generating the descriptor\<close>

text \<open>
  C3. If \<^verbatim>\<open>FOODIE_API_URL\<close> or \<^verbatim>\<open>FOODIE_API_KEY\<close> is unset or empty, \<open>cmd_setup\<close> leaves
  through \<^verbatim>\<open>sys.exit\<close> with a message (status 1) and hands back the state it was given:
  no file has changed and the trace has no new event, so nothing was written. The same
  holds for a process started as \<^verbatim>\<open>redteam.py setup\<close>.
\<close>

theorem setup_without_credentials_writes_nothing:
  assumes "environ p ''FOODIE_API_URL'' = None \<or> environ p ''FOODIE_API_URL'' = Some []
         \<or> environ p ''FOODIE_API_KEY'' = None \<or> environ p ''FOODIE_API_KEY'' = Some []"
  shows "\<exists>m. cmd_setup p args s = (Inl (SystemExit (Message m)), s)
           \<and> main p \<lparr>subcommand = Some ''setup'', options = []\<rparr> s
               = (Inl (SystemExit (Message m)), s)
           \<and> exit_status (Inl (SystemExit (Message m))) = 1"
proof -
  obtain m where "load_config p = Inl (SystemExit (Message m))"
    using load_config_absent [OF assms] by blast
  then have "\<And>a. cmd_setup p a s = (Inl (SystemExit (Message m)), s)"
    by (rule cmd_setup_fail)
  then show ?thesis by (simp add: main_setup)
qed

text \<open>Here the key is set but empty, and a descriptor is already on disk.\<close>

theorem setup_without_credentials_writes_nothing_witness:
  "environ (example_platform\<lparr>environ := [''FOODIE_API_URL'' \<mapsto> ''https://foodie.example/chat'',
                                         ''FOODIE_API_KEY'' \<mapsto> '''']\<rparr>) ''FOODIE_API_KEY'' = Some []
   \<and> (\<exists>m. cmd_setup (example_platform\<lparr>environ := [''FOODIE_API_URL'' \<mapsto> ''https://foodie.example/chat'',
                                                  ''FOODIE_API_KEY'' \<mapsto> '''']\<rparr>) Map.empty configured
            = (Inl (SystemExit (Message m)), configured))"
  using setup_without_credentials_writes_nothing
          [of "example_platform\<lparr>environ := [''FOODIE_API_URL'' \<mapsto> ''https://foodie.example/chat'',
                                             ''FOODIE_API_KEY'' \<mapsto> '''']\<rparr>" Map.empty configured]
  by auto

text \<open>
  C7. With both credentials set and non-empty, \<open>cmd_setup\<close> writes the serialised
  \<open>bot_config url key\<close> to the descriptor file, and in that value the member
  \<^verbatim>\<open>thread_init.payload\<close> is \<^verbatim>\<open>{"input": "clear"}\<close> and \<^verbatim>\<open>chat_completion.payload\<close> is
  \<^verbatim>\<open>{"input": "$PROMPT"}\<close>, whatever \<open>url\<close> and \<open>key\<close> are.
\<close>

theorem setup_payloads_fixed:
  assumes "environ p ''FOODIE_API_URL'' = Some url" and "url \<noteq> []"
      and "environ p ''FOODIE_API_KEY'' = Some key" and "key \<noteq> []"
  shows "fst (cmd_setup p args s) = Inr ()
       \<and> files (snd (cmd_setup p args s)) (BOT_CONFIG_FILE p)
           = Some (json_dump p (bot_config url key))
       \<and> jpath (bot_config url key) [''thread_init'', ''payload'']
           = Some (JObj [(''input'', JStr ''clear'')])
       \<and> jpath (bot_config url key) [''chat_completion'', ''payload'']
           = Some (JObj [(''input'', JStr ''$PROMPT'')])"
  by (simp add: cmd_setup_ok [OF load_config_present [OF assms]] bot_config_def)

theorem setup_payloads_fixed_witness:
  "files (snd (cmd_setup example_platform Map.empty fresh)) ''/opt/redteam/bot.json''
     = Some (render (bot_config ''https://foodie.example/chat'' ''sk-0123456789abcdef''))
   \<and> jpath (bot_config ''https://foodie.example/chat'' ''sk-0123456789abcdef'')
         [''thread_init'', ''payload''] = Some (JObj [(''input'', JStr ''clear'')])
   \<and> jpath (bot_config ''https://foodie.example/chat'' ''sk-0123456789abcdef'')
         [''chat_completion'', ''payload''] = Some (JObj [(''input'', JStr ''$PROMPT'')])"
  using setup_payloads_fixed [of example_platform "''https://foodie.example/chat''"
          "''sk-0123456789abcdef''" Map.empty fresh]
  by (simp add: example_platform_fields)

text \<open>
  C10. With both credentials set and non-empty, the value that \<open>cmd_setup\<close> serialises into
  the descriptor file has \<^verbatim>\<open>streaming\<close> false, and its \<^verbatim>\<open>thread_auth\<close> member has the
  empty string as endpoint and empty objects as headers and payload (and nothing else),
  whatever \<open>url\<close> and \<open>key\<close> are.
\<close>

theorem setup_streaming_and_thread_auth_fixed:
  assumes "environ p ''FOODIE_API_URL'' = Some url" and "url \<noteq> []"
      and "environ p ''FOODIE_API_KEY'' = Some key" and "key \<noteq> []"
  shows "fst (cmd_setup p args s) = Inr ()
       \<and> files (snd (cmd_setup p args s)) (BOT_CONFIG_FILE p)
           = Some (json_dump p (bot_config url key))
       \<and> jpath (bot_config url key) [''streaming''] = Some (JBool False)
       \<and> jpath (bot_config url key) [''thread_auth'']
           = Some (JObj [(''endpoint'', JStr ''''), (''headers'', JObj []), (''payload'', JObj [])])
       \<and> jpath (bot_config url key) [''thread_auth'', ''endpoint''] = Some (JStr '''')
       \<and> jpath (bot_config url key) [''thread_auth'', ''headers''] = Some (JObj [])
       \<and> jpath (bot_config url key) [''thread_auth'', ''payload''] = Some (JObj [])"
  by (simp add: cmd_setup_ok [OF load_config_present [OF assms]] bot_config_def)

theorem setup_streaming_and_thread_auth_fixed_witness:
  "fst (cmd_setup example_platform Map.empty configured) = Inr ()
   \<and> files (snd (cmd_setup example_platform Map.empty configured)) ''/opt/redteam/bot.json''
       = Some (render (bot_config ''https://foodie.example/chat'' ''sk-0123456789abcdef''))
   \<and> jpath (bot_config ''https://foodie.example/chat'' ''sk-0123456789abcdef'') [''streaming'']
       = Some (JBool False)
   \<and> jpath (bot_config ''https://foodie.example/chat'' ''sk-0123456789abcdef'')
         [''thread_auth'', ''headers''] = Some (JObj [])"
  using setup_streaming_and_thread_auth_fixed [of example_platform
          "''https://foodie.example/chat''" "''sk-0123456789abcdef''" Map.empty configured]
  by (simp add: example_platform_fields)

section \<open>The session guard\<close>

text \<open>
  C8. \<open>ensure_logged_in\<close> starts \<^verbatim>\<open>aiandme whoami\<close>, a command without arguments, and then
  \<^verbatim>\<open>aiandme login\<close> if and only if the return code of that probe is not 0; nothing follows
  the login, whose own return code has no influence. \<open>cmd_setup\<close> never starts a shell
  command: all it can add to the trace is the write of the descriptor.
\<close>

theorem session_guard_probe_then_login:
  "ensure_logged_in p s =
     s\<lparr>trace := trace s @ Shell ''aiandme whoami''
            # (if returncode p (trace s) ''aiandme whoami'' \<noteq> 0
               then [Shell ''aiandme login''] else [])\<rparr>
   \<and> (\<exists>evs. trace (snd (cmd_setup p args s)) = trace s @ evs \<and> (\<forall>c. Shell c \<notin> set evs))
   \<and> (\<exists>evs. trace (snd (main p \<lparr>subcommand = Some ''setup'', options = []\<rparr> s)) = trace s @ evs
             \<and> (\<forall>c. Shell c \<notin> set evs))"
  using cmd_setup_trace [of p _ s] by (simp add: ensure_logged_in_state main_setup)

text \<open>A probe that fails even after the login is not repeated.\<close>

theorem session_guard_probe_then_login_witness:
  "ensure_logged_in (example_platform\<lparr>returncode := \<lambda>h c. 1\<rparr>) fresh
     = \<lparr>files = Map.empty, trace = [Shell ''aiandme whoami'', Shell ''aiandme login'']\<rparr>
   \<and> ensure_logged_in example_platform fresh
     = \<lparr>files = Map.empty, trace = [Shell ''aiandme whoami'']\<rparr>"
  using session_guard_probe_then_login [of "example_platform\<lparr>returncode := \<lambda>h c. 1\<rparr>" fresh]
        session_guard_probe_then_login [of example_platform fresh]
  by (simp add: example_platform_fields fresh_def)

section \<open>The test command\<close>

lemma cmd_test_ok:
  assumes "ensure_bot_json p (ensure_logged_in p s) = (Inr (), s2)"
      and "getattr args ''level'' (PStr ''unit'') = PStr level"
      and "level \<in> set TEST_LEVELS"
  shows "cmd_test p args s =
     (Inr (),
      s2\<lparr>trace := trace s2 @
        [Shell (''aiandme test -e '' @ BOT_CONFIG_FILE p
           @ '' -t ''
           @ (if truthy (getattr args ''single'' (PBool False))
                then ''aiandme/adversarial/owasp_single_turn''
              else if truthy (getattr args ''agentic'' (PBool False))
                then ''aiandme/adversarial/owasp_agentic_multi_turn''
              else if truthy (getattr args ''behavioral'' (PBool False))
                then ''aiandme/behavioral/behavioral''
              else ''aiandme/adversarial/owasp_multi_turn'')
           @ '' -l '' @ level @ '' --wait''
           @ (if truthy (getattr args ''adaptive'' (PBool False)) then '' --adaptive'' else [])
           @ (if truthy (getattr args ''fail_on'' PNone)
              then '' --fail-on='' @ py_str (getattr args ''fail_on'' PNone) else []))]\<rparr>)"
  using assms by (simp add: cmd_test_def Let_def run_state)

lemma cmd_test_bad_level:
  assumes "getattr args ''level'' (PStr ''unit'') \<notin> PStr ` set TEST_LEVELS"
  shows "\<exists>m. cmd_test p args s
            = (Inl (SystemExit (Message m)), snd (ensure_bot_json p (ensure_logged_in p s)))"
proof (cases "ensure_bot_json p (ensure_logged_in p s)")
  case (Pair r s2)
  show ?thesis
  proof (cases r)
    case (Inl e)
    have "\<exists>m. e = SystemExit (Message m)"
      using Pair Inl load_config_cases [of p]
      by (auto simp add: ensure_bot_json_def cmd_setup_def Let_def split: if_splits)
    then show ?thesis using Pair Inl by (auto simp add: cmd_test_def)
  next
    case (Inr u)
    then show ?thesis using Pair assms by (simp add: cmd_test_def Let_def)
  qed
qed

lemma guards_trace:
  "\<exists>evs. trace (snd (ensure_bot_json p (ensure_logged_in p s))) = trace s @ evs
         \<and> (\<forall>c. Shell c \<in> set evs \<longrightarrow> c = ''aiandme whoami'' \<or> c = ''aiandme login'')"
proof -
  obtain evs where evs:
    "trace (snd (ensure_bot_json p (ensure_logged_in p s))) = trace (ensure_logged_in p s) @ evs"
    "\<forall>c. Shell c \<notin> set evs"
    using ensure_bot_json_trace [of p "ensure_logged_in p s"] by blast
  let ?guard = "Shell ''aiandme whoami''
     # (if returncode p (trace s) ''aiandme whoami'' \<noteq> 0 then [Shell ''aiandme login''] else [])"
  have "trace (snd (ensure_bot_json p (ensure_logged_in p s))) = trace s @ (?guard @ evs)"
    using evs(1) by (simp add: ensure_logged_in_state)
  moreover have "\<forall>c. Shell c \<in> set (?guard @ evs) \<longrightarrow> c = ''aiandme whoami'' \<or> c = ''aiandme login''"
    using evs(2) by auto
  ultimately show ?thesis by blast
qed

text \<open>
  C2. Once the two guards have passed and the level is one of \<open>TEST_LEVELS\<close>, \<open>cmd_test\<close>
  starts exactly one more shell command, and it is a function of the flags alone: the
  category after \<^verbatim>\<open>-t\<close> is the single-turn one if \<^verbatim>\<open>single\<close> is set, else the agentic one
  if \<^verbatim>\<open>agentic\<close> is set, else the behavioral one if \<^verbatim>\<open>behavioral\<close> is set, and the multi-turn
  one otherwise, that is for \<^verbatim>\<open>adaptive\<close> and for no flag at all; \<^verbatim>\<open>--adaptive\<close> is appended
  exactly when \<^verbatim>\<open>adaptive\<close> is set. The four booleans are arbitrary.
\<close>

theorem test_category_by_precedence:
  assumes "ensure_bot_json p (ensure_logged_in p s) = (Inr (), s2)"
      and "getattr args ''level'' (PStr ''unit'') = PStr level"
      and "level \<in> set TEST_LEVELS"
      and "truthy (getattr args ''single'' (PBool False)) = sg"
      and "truthy (getattr args ''agentic'' (PBool False)) = ag"
      and "truthy (getattr args ''behavioral'' (PBool False)) = bh"
      and "truthy (getattr args ''adaptive'' (PBool False)) = ad"
  shows "cmd_test p args s =
     (Inr (),
      s2\<lparr>trace := trace s2 @
        [Shell (''aiandme test -e '' @ BOT_CONFIG_FILE p
           @ '' -t ''
           @ (if sg then ''aiandme/adversarial/owasp_single_turn''
              else if ag then ''aiandme/adversarial/owasp_agentic_multi_turn''
              else if bh then ''aiandme/behavioral/behavioral''
              else if ad then ''aiandme/adversarial/owasp_multi_turn''
              else ''aiandme/adversarial/owasp_multi_turn'')
           @ '' -l '' @ level @ '' --wait''
           @ (if ad then '' --adaptive'' else [])
           @ (if truthy (getattr args ''fail_on'' PNone)
              then '' --fail-on='' @ py_str (getattr args ''fail_on'' PNone) else []))]\<rparr>)"
  using assms(4-7) cmd_test_ok [OF assms(1-3)] by auto

text \<open>The three cases the specification names: only \<^verbatim>\<open>single\<close>, only \<^verbatim>\<open>adaptive\<close>, no flag.\<close>

theorem test_category_by_precedence_witness:
  "trace (snd (cmd_test example_platform [''single'' \<mapsto> PBool True] configured))
     = [Shell ''aiandme whoami'',
        Shell ''aiandme test -e /opt/redteam/bot.json -t aiandme/adversarial/owasp_single_turn -l unit --wait'']
   \<and> trace (snd (cmd_test example_platform [''adaptive'' \<mapsto> PBool True] configured))
     = [Shell ''aiandme whoami'',
        Shell ''aiandme test -e /opt/redteam/bot.json -t aiandme/adversarial/owasp_multi_turn -l unit --wait --adaptive'']
   \<and> trace (snd (cmd_test example_platform Map.empty configured))
     = [Shell ''aiandme whoami'',
        Shell ''aiandme test -e /opt/redteam/bot.json -t aiandme/adversarial/owasp_multi_turn -l unit --wait'']"
proof -
  let ?s2 = "configured\<lparr>trace := [Shell ''aiandme whoami'']\<rparr>"
  have guards: "ensure_bot_json example_platform (ensure_logged_in example_platform configured)
                  = (Inr (), ?s2)"
    by (simp add: ensure_bot_json_def ensure_logged_in_state example_platform_fields configured_def)
  have level: "\<And>args. args ''level'' = None \<Longrightarrow> getattr args ''level'' (PStr ''unit'') = PStr ''unit''"
    by (simp add: getattr_def)
  have unit: "''unit'' \<in> set TEST_LEVELS"
    by (simp add: TEST_LEVELS_def)
  have "cmd_test example_platform [''single'' \<mapsto> PBool True] configured
          = (Inr (), ?s2\<lparr>trace := trace ?s2 @ [Shell ''aiandme test -e /opt/redteam/bot.json -t aiandme/adversarial/owasp_single_turn -l unit --wait'']\<rparr>)"
    using test_category_by_precedence [OF guards level unit, of "[''single'' \<mapsto> PBool True]" True False False False]
    by (simp add: getattr_def example_platform_fields)
  moreover have "cmd_test example_platform [''adaptive'' \<mapsto> PBool True] configured
          = (Inr (), ?s2\<lparr>trace := trace ?s2 @ [Shell ''aiandme test -e /opt/redteam/bot.json -t aiandme/adversarial/owasp_multi_turn -l unit --wait --adaptive'']\<rparr>)"
    using test_category_by_precedence [OF guards level unit, of "[''adaptive'' \<mapsto> PBool True]" False False False True]
    by (simp add: getattr_def example_platform_fields)
  moreover have "cmd_test example_platform Map.empty configured
          = (Inr (), ?s2\<lparr>trace := trace ?s2 @ [Shell ''aiandme test -e /opt/redteam/bot.json -t aiandme/adversarial/owasp_multi_turn -l unit --wait'']\<rparr>)"
    using test_category_by_precedence [OF guards level unit, of Map.empty False False False False]
    by (simp add: getattr_def example_platform_fields)
  ultimately show ?thesis by simp
qed

text \<open>
  C5. If the level that \<open>cmd_test\<close> receives is not one of \<^verbatim>\<open>unit\<close>, \<^verbatim>\<open>system\<close>,
  \<^verbatim>\<open>acceptance\<close> (a string outside the three, \<^verbatim>\<open>None\<close> or a boolean), it leaves through
  \<^verbatim>\<open>sys.exit\<close> with a message, so the process ends with status 1, and the only shell
  commands it has started are those of the session guard: no \<^verbatim>\<open>aiandme test\<close>. This holds
  for every argument object, every platform and every state.
\<close>

theorem test_rejects_unknown_level:
  "getattr args ''level'' (PStr ''unit'') \<notin> PStr ` set TEST_LEVELS \<longrightarrow>
      (\<exists>m evs. fst (cmd_test p args s) = Inl (SystemExit (Message m))
         \<and> exit_status (fst (cmd_test p args s)) = 1
         \<and> trace (snd (cmd_test p args s)) = trace s @ evs
         \<and> (\<forall>c. Shell c \<in> set evs \<longrightarrow> c = ''aiandme whoami'' \<or> c = ''aiandme login''))"
proof
  assume "getattr args ''level'' (PStr ''unit'') \<notin> PStr ` set TEST_LEVELS"
  then obtain m where
    "cmd_test p args s = (Inl (SystemExit (Message m)), snd (ensure_bot_json p (ensure_logged_in p s)))"
    using cmd_test_bad_level by blast
  then show "\<exists>m evs. fst (cmd_test p args s) = Inl (SystemExit (Message m))
         \<and> exit_status (fst (cmd_test p args s)) = 1
         \<and> trace (snd (cmd_test p args s)) = trace s @ evs
         \<and> (\<forall>c. Shell c \<in> set evs \<longrightarrow> c = ''aiandme whoami'' \<or> c = ''aiandme login'')"
    using guards_trace [of p s] by auto
qed

text \<open>
  The level \<^verbatim>\<open>deep\<close> on a machine without a descriptor: the guard runs, the descriptor is
  generated, and the process ends before any test is started.
\<close>

theorem test_rejects_unknown_level_witness:
  "getattr [''level'' \<mapsto> PStr ''deep''] ''level'' (PStr ''unit'') \<notin> PStr ` set TEST_LEVELS
   \<and> (\<exists>m evs. fst (cmd_test example_platform [''level'' \<mapsto> PStr ''deep''] fresh)
                 = Inl (SystemExit (Message m))
         \<and> exit_status (fst (cmd_test example_platform [''level'' \<mapsto> PStr ''deep''] fresh)) = 1
         \<and> trace (snd (cmd_test example_platform [''level'' \<mapsto> PStr ''deep''] fresh))
             = trace fresh @ evs
         \<and> (\<forall>c. Shell c \<in> set evs \<longrightarrow> c = ''aiandme whoami'' \<or> c = ''aiandme login''))"
proof -
  have bad: "getattr [''level'' \<mapsto> PStr ''deep''] ''level'' (PStr ''unit'')
               \<notin> PStr ` set TEST_LEVELS"
    by (auto simp add: getattr_def TEST_LEVELS_def)
  show ?thesis
    using bad test_rejects_unknown_level [of "[''level'' \<mapsto> PStr ''deep'']" example_platform fresh]
    by blast
qed

section \<open>Exporting guardrails\<close>

lemma parse_args_guardrails:
  "parse_args \<lparr>subcommand = Some ''guardrails'', options = []\<rparr>
     = Inr [''command'' \<mapsto> PStr ''guardrails'', ''vendor'' \<mapsto> PStr ''aiandme'',
            ''format'' \<mapsto> PStr ''json'', ''output'' \<mapsto> PNone]"
  by (simp add: parse_args_def subparsers_def defaults_def)

lemma cmd_guardrails_state:
  "cmd_guardrails p args s =
     (Inr (),
      s\<lparr>trace := trace s
         @ Shell ''aiandme whoami''
           # (if returncode p (trace s) ''aiandme whoami'' \<noteq> 0
              then [Shell ''aiandme login''] else [])
         @ [Shell (''aiandme guardrails --vendor '' @ py_str (getattr args ''vendor'' (PStr ''aiandme''))
                   @ '' --format '' @ py_str (getattr args ''format'' (PStr ''json''))
                   @ (if truthy (getattr args ''output'' PNone)
                      then '' -o '' @ py_str (getattr args ''output'' PNone) else []))]\<rparr>)"
  by (simp add: cmd_guardrails_def Let_def ensure_logged_in_state run_state)

text \<open>
  C6. A process started as \<^verbatim>\<open>redteam.py guardrails\<close>, with no option, passes the session
  guard and then starts exactly \<^verbatim>\<open>aiandme guardrails --vendor aiandme --format json\<close>: the
  vendor is the tool's own (the one the specification calls native), the format is json,
  and no \<^verbatim>\<open>-o\<close> follows. \<open>cmd_guardrails\<close> does the same for an argument object that has
  none of the three attributes.
\<close>

theorem guardrails_defaults:
  "main p \<lparr>subcommand = Some ''guardrails'', options = []\<rparr> s =
     (Inr (),
      s\<lparr>trace := trace s
         @ Shell ''aiandme whoami''
           # (if returncode p (trace s) ''aiandme whoami'' \<noteq> 0
              then [Shell ''aiandme login''] else [])
         @ [Shell ''aiandme guardrails --vendor aiandme --format json'']\<rparr>)
   \<and> cmd_guardrails p Map.empty s = main p \<lparr>subcommand = Some ''guardrails'', options = []\<rparr> s"
  by (simp add: main_def parse_args_guardrails commands_def cmd_guardrails_state getattr_def)

theorem guardrails_defaults_witness:
  "main example_platform \<lparr>subcommand = Some ''guardrails'', options = []\<rparr> fresh =
     (Inr (),
      \<lparr>files = Map.empty,
       trace = [Shell ''aiandme whoami'',
                Shell ''aiandme guardrails --vendor aiandme --format json'']\<rparr>)"
  using guardrails_defaults [of example_platform fresh]
  by (simp add: example_platform_fields fresh_def)

section \<open>Who writes the descriptor\<close>

lemma guarded_run_frame:
  "\<exists>evs. snd (run p cmd check (ensure_logged_in p s)) = s\<lparr>trace := trace s @ evs\<rparr>
         \<and> (\<forall>path content. Write path content \<notin> set evs)"
proof -
  let ?evs = "Shell ''aiandme whoami''
     # (if returncode p (trace s) ''aiandme whoami'' \<noteq> 0 then [Shell ''aiandme login''] else [])
     @ [Shell cmd]"
  have "snd (run p cmd check (ensure_logged_in p s)) = s\<lparr>trace := trace s @ ?evs\<rparr>"
    by (simp add: run_state ensure_logged_in_state)
  moreover have "\<forall>path content. Write path content \<notin> set ?evs"
    by simp
  ultimately show ?thesis by blast
qed

lemma cmd_init_present:
  assumes "files s (BOT_CONFIG_FILE p) = Some c"
  shows "snd (cmd_init p args s)
           = snd (run p (''aiandme init -e '' @ BOT_CONFIG_FILE p) True (ensure_logged_in p s))"
proof -
  have "files (ensure_logged_in p s) (BOT_CONFIG_FILE p) = Some c"
    using assms by (simp add: ensure_logged_in_state)
  then have "ensure_bot_json p (ensure_logged_in p s) = (Inr (), ensure_logged_in p s)"
    by (rule ensure_bot_json_present)
  then show ?thesis
    by (simp add: cmd_init_def Let_def)
qed

lemma cmd_test_present:
  assumes "files s (BOT_CONFIG_FILE p) = Some c"
  shows "\<exists>evs. snd (cmd_test p args s) = s\<lparr>trace := trace s @ evs\<rparr>
           \<and> (\<forall>path content. Write path content \<notin> set evs)"
proof -
  have "files (ensure_logged_in p s) (BOT_CONFIG_FILE p) = Some c"
    using assms by (simp add: ensure_logged_in_state)
  then have guards: "ensure_bot_json p (ensure_logged_in p s) = (Inr (), ensure_logged_in p s)"
    by (rule ensure_bot_json_present)
  show ?thesis
  proof (cases "getattr args ''level'' (PStr ''unit'') \<in> PStr ` set TEST_LEVELS")
    case True
    then obtain level where level:
      "getattr args ''level'' (PStr ''unit'') = PStr level" "level \<in> set TEST_LEVELS"
      by auto
    have "\<exists>cmd. snd (cmd_test p args s) = snd (run p cmd True (ensure_logged_in p s))"
      unfolding cmd_test_ok [OF guards level] run_state snd_conv by (rule exI) (rule refl)
    then show ?thesis using guarded_run_frame [of p _ True s] by auto
  next
    case False
    then have "snd (cmd_test p args s) = ensure_logged_in p s"
      using cmd_test_bad_level [of args p s] guards by auto
    moreover have "ensure_logged_in p s = s\<lparr>trace := trace s @ (Shell ''aiandme whoami''
       # (if returncode p (trace s) ''aiandme whoami'' \<noteq> 0 then [Shell ''aiandme login''] else []))\<rparr>"
      by (rule ensure_logged_in_state)
    moreover have "\<forall>path content. Write path content \<notin> set (Shell ''aiandme whoami''
       # (if returncode p (trace s) ''aiandme whoami'' \<noteq> 0 then [Shell ''aiandme login''] else []))"
      by simp
    ultimately show ?thesis by metis
  qed
qed

lemma cmd_init_absent:
  assumes "files s (BOT_CONFIG_FILE p) = None" and "load_config p = Inr (url, key)"
  shows "files (snd (cmd_init p args s))
           = (files s)(BOT_CONFIG_FILE p \<mapsto> json_dump p (bot_config url key))"
proof -
  have "files (ensure_logged_in p s) (BOT_CONFIG_FILE p) = None"
    using assms(1) by (simp add: ensure_logged_in_state)
  then show ?thesis
    by (simp add: cmd_init_def Let_def ensure_bot_json_def cmd_setup_ok [OF assms(2)] run_state)
       (simp add: ensure_logged_in_state)
qed

lemma cmd_test_absent:
  assumes "files s (BOT_CONFIG_FILE p) = None" and "load_config p = Inr (url, key)"
  shows "files (snd (cmd_test p args s))
           = (files s)(BOT_CONFIG_FILE p \<mapsto> json_dump p (bot_config url key))"
proof -
  have "files (ensure_logged_in p s) (BOT_CONFIG_FILE p) = None"
    using assms(1) by (simp add: ensure_logged_in_state)
  then show ?thesis
    by (simp add: cmd_test_def Let_def ensure_bot_json_def cmd_setup_ok [OF assms(2)] run_state)
       (simp add: ensure_logged_in_state)
qed

lemma cmd_status_run:
  "snd (cmd_status p args s)
     = snd (run p (if truthy (getattr args ''watch'' (PBool False))
                   then ''aiandme status --watch'' else ''aiandme status'')
              True (ensure_logged_in p s))"
  by (simp add: cmd_status_def Let_def)

lemma cmd_logs_run:
  "snd (cmd_logs p args s)
     = snd (run p (if truthy (getattr args ''failed'' (PBool False))
                   then ''aiandme logs --verdict fail'' else ''aiandme logs'')
              True (ensure_logged_in p s))"
  by (simp add: cmd_logs_def Let_def)

lemma cmd_posture_run:
  "snd (cmd_posture p args s) = snd (run p ''aiandme posture'' True (ensure_logged_in p s))"
  by (simp add: cmd_posture_def Let_def)

lemma cmd_guardrails_run:
  "snd (cmd_guardrails p args s)
     = snd (run p (''aiandme guardrails --vendor '' @ py_str (getattr args ''vendor'' (PStr ''aiandme''))
                   @ '' --format '' @ py_str (getattr args ''format'' (PStr ''json''))
                   @ (if truthy (getattr args ''output'' PNone)
                      then '' -o '' @ py_str (getattr args ''output'' PNone) else []))
              True (ensure_logged_in p s))"
  by (simp add: cmd_guardrails_def Let_def)

text \<open>
  C9. The descriptor file is written by \<open>cmd_setup\<close> only, which \<open>cmd_full\<close> always calls and
  \<open>cmd_init\<close> and \<open>cmd_test\<close> call through \<open>ensure_bot_json\<close>. If the file exists, \<open>cmd_init\<close> and
  \<open>cmd_test\<close> hand back the state with nothing but shell commands added to the trace: every
  file is as it was, the descriptor with the content it had, and nothing was written. If
  the file is absent and the credentials load, they create it with the serialised
  \<open>bot_config\<close>. \<open>cmd_status\<close>, \<open>cmd_logs\<close>, \<open>cmd_posture\<close> and \<open>cmd_guardrails\<close> never write,
  whether the file exists or not. (What the external \<^verbatim>\<open>aiandme\<close> commands do to the disk
  is outside the model.)
\<close>

theorem descriptor_written_only_by_setup:
  "(files s (BOT_CONFIG_FILE p) = Some c \<longrightarrow>
      (\<exists>evs. snd (cmd_init p args s) = s\<lparr>trace := trace s @ evs\<rparr>
            \<and> (\<forall>path content. Write path content \<notin> set evs))
    \<and> (\<exists>evs. snd (cmd_test p args s) = s\<lparr>trace := trace s @ evs\<rparr>
            \<and> (\<forall>path content. Write path content \<notin> set evs))
    \<and> files (snd (cmd_init p args s)) (BOT_CONFIG_FILE p) = Some c
    \<and> files (snd (cmd_test p args s)) (BOT_CONFIG_FILE p) = Some c)
   \<and> (files s (BOT_CONFIG_FILE p) = None \<and> load_config p = Inr (url, key) \<longrightarrow>
        files (snd (cmd_init p args s))
          = (files s)(BOT_CONFIG_FILE p \<mapsto> json_dump p (bot_config url key))
      \<and> files (snd (cmd_test p args s))
          = (files s)(BOT_CONFIG_FILE p \<mapsto> json_dump p (bot_config url key)))
   \<and> (\<exists>evs. snd (cmd_status p args s) = s\<lparr>trace := trace s @ evs\<rparr>
            \<and> (\<forall>path content. Write path content \<notin> set evs))
   \<and> (\<exists>evs. snd (cmd_logs p args s) = s\<lparr>trace := trace s @ evs\<rparr>
            \<and> (\<forall>path content. Write path content \<notin> set evs))
   \<and> (\<exists>evs. snd (cmd_posture p args s) = s\<lparr>trace := trace s @ evs\<rparr>
            \<and> (\<forall>path content. Write path content \<notin> set evs))
   \<and> (\<exists>evs. snd (cmd_guardrails p args s) = s\<lparr>trace := trace s @ evs\<rparr>
            \<and> (\<forall>path content. Write path content \<notin> set evs))"
proof (intro conjI impI)
  assume present: "files s (BOT_CONFIG_FILE p) = Some c"
  show i: "\<exists>evs. snd (cmd_init p args s) = s\<lparr>trace := trace s @ evs\<rparr>
            \<and> (\<forall>path content. Write path content \<notin> set evs)"
    unfolding cmd_init_present [OF present] by (rule guarded_run_frame)
  show t: "\<exists>evs. snd (cmd_test p args s) = s\<lparr>trace := trace s @ evs\<rparr>
            \<and> (\<forall>path content. Write path content \<notin> set evs)"
    using present by (rule cmd_test_present)
  show "files (snd (cmd_init p args s)) (BOT_CONFIG_FILE p) = Some c"
    using i present by auto
  show "files (snd (cmd_test p args s)) (BOT_CONFIG_FILE p) = Some c"
    using t present by auto
next
  assume absent: "files s (BOT_CONFIG_FILE p) = None \<and> load_config p = Inr (url, key)"
  show "files (snd (cmd_init p args s))
          = (files s)(BOT_CONFIG_FILE p \<mapsto> json_dump p (bot_config url key))"
    using absent by (simp add: cmd_init_absent)
  show "files (snd (cmd_test p args s))
          = (files s)(BOT_CONFIG_FILE p \<mapsto> json_dump p (bot_config url key))"
    using absent by (simp add: cmd_test_absent)
next
  show "\<exists>evs. snd (cmd_status p args s) = s\<lparr>trace := trace s @ evs\<rparr>
            \<and> (\<forall>path content. Write path content \<notin> set evs)"
    unfolding cmd_status_run by (rule guarded_run_frame)
  show "\<exists>evs. snd (cmd_logs p args s) = s\<lparr>trace := trace s @ evs\<rparr>
            \<and> (\<forall>path content. Write path content \<notin> set evs)"
    unfolding cmd_logs_run by (rule guarded_run_frame)
  show "\<exists>evs. snd (cmd_posture p args s) = s\<lparr>trace := trace s @ evs\<rparr>
            \<and> (\<forall>path content. Write path content \<notin> set evs)"
    unfolding cmd_posture_run by (rule guarded_run_frame)
  show "\<exists>evs. snd (cmd_guardrails p args s) = s\<lparr>trace := trace s @ evs\<rparr>
            \<and> (\<forall>path content. Write path content \<notin> set evs)"
    unfolding cmd_guardrails_run by (rule guarded_run_frame)
qed

text \<open>
  On \<open>configured\<close> the descriptor holds \<^verbatim>\<open>{}\<close> and keeps it; on \<open>fresh\<close> there is none and
  one is created.
\<close>

theorem descriptor_written_only_by_setup_witness:
  "files configured (BOT_CONFIG_FILE example_platform) = Some ''{}''
   \<and> files (snd (cmd_init example_platform Map.empty configured)) ''/opt/redteam/bot.json''
       = Some ''{}''
   \<and> files (snd (cmd_test example_platform Map.empty configured)) ''/opt/redteam/bot.json''
       = Some ''{}''
   \<and> files fresh (BOT_CONFIG_FILE example_platform) = None
   \<and> files (snd (cmd_init example_platform Map.empty fresh)) ''/opt/redteam/bot.json''
       = Some (render (bot_config ''https://foodie.example/chat'' ''sk-0123456789abcdef''))
   \<and> files (snd (cmd_test example_platform Map.empty fresh)) ''/opt/redteam/bot.json''
       = Some (render (bot_config ''https://foodie.example/chat'' ''sk-0123456789abcdef''))"
proof -
  have present: "files configured (BOT_CONFIG_FILE example_platform) = Some ''{}''"
    by (simp add: configured_def example_platform_fields)
  have absent: "files fresh (BOT_CONFIG_FILE example_platform) = None"
    by (simp add: fresh_def)
  show ?thesis
    using present absent example_credentials
      descriptor_written_only_by_setup [of configured example_platform "''{}''" Map.empty]
      descriptor_written_only_by_setup [of fresh example_platform _ Map.empty
         "''https://foodie.example/chat''" "''sk-0123456789abcdef''"]
    by (simp add: example_platform_fields)
qed

end
